theory Spec2Isabelle
  imports Main
begin

section \<open>JavaScript objects\<close>

text \<open>
  The configuration document is a tree of plain JavaScript objects: a catalog maps package
  names to version strings (\<open>Record<string, string>\<close>), the container of named catalogs
  maps catalog names to catalogs. Every such object inherits from \<open>Object.prototype\<close>, and
  the module reads and writes it with \<open>ob[k]\<close>. An object is modelled by the table of its own
  enumerable properties, in the order in which \<open>Object.keys\<close> enumerates them; a read that
  finds no own property goes on to \<open>Object.prototype\<close>.

  The built-in objects are those of a fresh realm. A call that would read or write a
  property of a built-in object does not return a value in the model: it ends in a \<open>halt\<close>
  that names the access. What the program does there (return the built-in's property, raise
  \<open>TypeError\<close> on a read-only property, or change the built-in for every object of the
  realm) is the runtime's, and the model says nothing about it.
\<close>

type_synonym 'v obj = "(string \<times> 'v) list"

definition obj_keys :: "'v obj \<Rightarrow> string list" where
  "obj_keys ob = map fst ob"

text \<open>The own property names of \<open>Object.prototype\<close>. All hold functions, except the
  accessor \<open>__proto__\<close>, which a plain object reads as \<open>Object.prototype\<close> itself.\<close>

definition object_prototype_names :: "string list" where
  "object_prototype_names =
     [''constructor'', ''__defineGetter__'', ''__defineSetter__'', ''hasOwnProperty'',
      ''__lookupGetter__'', ''__lookupSetter__'', ''isPrototypeOf'', ''propertyIsEnumerable'',
      ''toString'', ''valueOf'', ''__proto__'', ''toLocaleString'']"

text \<open>The result of \<open>ob[k]\<close>: an own property, else the built-in that \<open>Object.prototype\<close>
  holds under \<open>k\<close>, else \<open>undefined\<close>.\<close>

datatype 'v lookup = Absent | Own 'v | Inherited string

definition obj_get :: "'v obj \<Rightarrow> string \<Rightarrow> 'v lookup" where
  "obj_get ob k =
     (case map_of ob k of
        Some v \<Rightarrow> Own v
      | None \<Rightarrow> if k \<in> set object_prototype_names then Inherited k else Absent)"

text \<open>
  Truthiness. A looked-up version is falsy when it is \<open>undefined\<close> or the empty string;
  objects, and so the built-ins, are truthy. Where the own values are objects, a lookup is
  truthy unless it is \<open>undefined\<close>.
\<close>

definition truthy :: "string lookup \<Rightarrow> bool" where
  "truthy x = (case x of Absent \<Rightarrow> False | Own s \<Rightarrow> s \<noteq> [] | Inherited b \<Rightarrow> True)"

definition truthy_object :: "'v lookup \<Rightarrow> bool" where
  "truthy_object x = (case x of Absent \<Rightarrow> False | Own v \<Rightarrow> True | Inherited b \<Rightarrow> True)"

text \<open>\<open>delete ob[k]\<close>: an own property disappears and the others keep their order; without
  an own property nothing happens.\<close>

definition obj_delete :: "string \<Rightarrow> 'v obj \<Rightarrow> 'v obj" where
  "obj_delete k ob = filter (\<lambda>e. fst e \<noteq> k) ob"

text \<open>
  \<open>Object.keys\<close> lists the array-index names (canonical decimal numerals below
  \<open>2^32 - 1\<close>) first, in ascending numeric order, and then all other names in the order of
  their creation. A write to an existing own property keeps its position.
\<close>

definition is_digit :: "char \<Rightarrow> bool" where
  "is_digit c = (c \<in> set ''0123456789'')"

definition decimal_value :: "string \<Rightarrow> int" where
  "decimal_value s = foldl (\<lambda>n c. 10 * n + (of_char c - 48)) 0 s"

definition array_index :: "string \<Rightarrow> int option" where
  "array_index k =
     (if k \<noteq> [] \<and> list_all is_digit k \<and> (k = ''0'' \<or> hd k \<noteq> CHR ''0'')
         \<and> decimal_value k < 4294967295
      then Some (decimal_value k) else None)"

fun obj_replace :: "string \<Rightarrow> 'v \<Rightarrow> 'v obj \<Rightarrow> 'v obj" where
  "obj_replace k v [] = []"
| "obj_replace k v (e # rest) =
     (if fst e = k then (k, v) # rest else e # obj_replace k v rest)"

fun obj_insert_index :: "int \<Rightarrow> string \<Rightarrow> 'v \<Rightarrow> 'v obj \<Rightarrow> 'v obj" where
  "obj_insert_index n k v [] = [(k, v)]"
| "obj_insert_index n k v (e # rest) =
     (case array_index (fst e) of
        Some n' \<Rightarrow> if n' < n then e # obj_insert_index n k v rest else (k, v) # e # rest
      | None \<Rightarrow> (k, v) # e # rest)"

definition obj_insert :: "string \<Rightarrow> 'v \<Rightarrow> 'v obj \<Rightarrow> 'v obj" where
  "obj_insert k v ob =
     (case array_index k of
        Some n \<Rightarrow> obj_insert_index n k v ob
      | None \<Rightarrow> ob @ [(k, v)])"

text \<open>
  The assignment \<open>ob[k] = v\<close> of a string. An own property is overwritten. Otherwise the
  name \<open>__proto__\<close> reaches the inherited setter, which ignores a value that is no object:
  nothing is stored. Every other name, also one that \<open>Object.prototype\<close> holds, becomes a
  new own property.
\<close>

definition obj_set :: "string \<Rightarrow> string \<Rightarrow> string obj \<Rightarrow> string obj" where
  "obj_set k v ob =
     (if k \<in> set (obj_keys ob) then obj_replace k v ob
      else if k = ''__proto__'' then ob
      else obj_insert k v ob)"

datatype halt =
    SyntaxError
  | TypeError
  | BuiltinRead string string
  | BuiltinWrite string string
  | PrimitiveRead string string
  | PrototypeChange

text \<open>
  An assignment to a property of a built-in. The functions that \<open>Object.prototype\<close> holds
  have the read-only properties \<open>name\<close> and \<open>length\<close>, and \<open>Object\<close> (reached as
  \<open>constructor\<close>) also \<open>prototype\<close>: in a strict-mode module the assignment raises
  \<open>TypeError\<close>. Any other assignment is left to the runtime.
\<close>

definition builtin_write :: "string \<Rightarrow> string \<Rightarrow> halt" where
  "builtin_write b k =
     (if b \<noteq> ''__proto__''
         \<and> (k = ''name'' \<or> k = ''length'' \<or> (b = ''constructor'' \<and> k = ''prototype''))
      then TypeError else BuiltinWrite b k)"

text \<open>
  The assignment \<open>ob[k] = v\<close> of an object. Without an own property \<open>__proto__\<close>, the
  inherited setter would make \<open>v\<close> the prototype of \<open>ob\<close>, which is beyond this model.
\<close>

definition obj_set_object :: "string \<Rightarrow> 'v \<Rightarrow> 'v obj \<Rightarrow> halt + 'v obj" where
  "obj_set_object k v ob =
     (if k \<in> set (obj_keys ob) then Inr (obj_replace k v ob)
      else if k = ''__proto__'' then Inl PrototypeChange
      else Inr (obj_insert k v ob))"

section \<open>The document and the workspace handle\<close>

record Workspaces =
  packages :: "string list option"
  catalog :: "string obj option"
  catalogs :: "string obj obj option"

record BunWorkspaceSchema =
  workspaces :: "Workspaces option"

text \<open>
  The closure returned by \<open>parseBunWorkspace\<close> owns two variables, \<open>config\<close> and
  \<open>hasChanged\<close>; every operation reads or writes them. The operation \<open>hasChanged()\<close> returns
  the variable of the same name, which is the record field here.
\<close>

record BunWorkspace =
  config :: BunWorkspaceSchema
  hasChanged :: bool

text \<open>What a lookup returns to the caller: \<open>undefined\<close>, a version, a catalog, or the
  built-in that \<open>Object.prototype\<close> holds under a name.\<close>

datatype jsvalue = Undefined | Str string | Packages "string obj" | Builtin string

definition version_value :: "string lookup \<Rightarrow> jsvalue" where
  "version_value x = (case x of Absent \<Rightarrow> Undefined | Own s \<Rightarrow> Str s | Inherited b \<Rightarrow> Builtin b)"

text \<open>The optional chains \<open>config.workspaces?.catalog\<close> and \<open>config.workspaces?.catalogs\<close>.
  Neither name is one of \<open>Object.prototype\<close>, so only own properties answer.\<close>

definition opt_catalog :: "BunWorkspaceSchema \<Rightarrow> string obj option" where
  "opt_catalog c = Option.bind (workspaces c) catalog"

definition opt_catalogs :: "BunWorkspaceSchema \<Rightarrow> string obj obj option" where
  "opt_catalogs c = Option.bind (workspaces c) catalogs"

definition set_workspaces :: "Workspaces \<Rightarrow> BunWorkspace \<Rightarrow> BunWorkspace" where
  "set_workspaces w m = m\<lparr>config := (config m)\<lparr>workspaces := Some w\<rparr>\<rparr>"

text \<open>
  \<open>JSON.parse\<close> belongs to the runtime, not to this module: it is a parameter of the
  model. A parser returns the document or fails with \<open>SyntaxError\<close>.
\<close>

definition parseBunWorkspace ::
  "(string \<Rightarrow> halt + BunWorkspaceSchema) \<Rightarrow> string \<Rightarrow> halt + BunWorkspace" where
  "parseBunWorkspace json_parse content =
     (case json_parse content of
        Inl e \<Rightarrow> Inl e
      | Inr c \<Rightarrow> Inr \<lparr>config = c, hasChanged = False\<rparr>)"

definition ensureWorkspaces :: "BunWorkspace \<Rightarrow> BunWorkspace" where
  "ensureWorkspaces m =
     (if workspaces (config m) = None
      then (set_workspaces \<lparr>packages = None, catalog = None, catalogs = None\<rparr> m)
             \<lparr>hasChanged := True\<rparr>
      else m)"

text \<open>
  \<open>createCatalog\<close> dereferences \<open>config.workspaces\<close> and \<open>config.workspaces.catalogs\<close>
  without a guard; a dereference of \<open>undefined\<close> would raise \<open>TypeError\<close>, which is a branch
  of the model. The test \<open>!config.workspaces.catalogs[name]\<close> is a lookup through the
  prototype: a name that \<open>Object.prototype\<close> holds is truthy, and no catalog is created.
\<close>

definition createCatalog :: "string \<Rightarrow> BunWorkspace \<Rightarrow> halt + BunWorkspace" where
  "createCatalog name m0 =
     (let m = ensureWorkspaces m0 in
      case workspaces (config m) of
        None \<Rightarrow> Inl TypeError
      | Some w \<Rightarrow>
          if name = ''default'' then
            (if catalog w = None
             then Inr ((set_workspaces (w\<lparr>catalog := Some []\<rparr>) m)\<lparr>hasChanged := True\<rparr>)
             else Inr m)
          else
            (let w1 = (if catalogs w = None then w\<lparr>catalogs := Some []\<rparr> else w) in
             case catalogs w1 of
               None \<Rightarrow> Inl TypeError
             | Some cs \<Rightarrow>
                 if \<not> truthy_object (obj_get cs name)
                 then (case obj_set_object name [] cs of
                         Inl h \<Rightarrow> Inl h
                       | Inr cs' \<Rightarrow>
                           Inr ((set_workspaces (w1\<lparr>catalogs := Some cs'\<rparr>) m)
                                  \<lparr>hasChanged := True\<rparr>))
                 else Inr (set_workspaces w1 m)))"

text \<open>The test of \<open>removeCatalog\<close> is the same lookup: for a name that \<open>Object.prototype\<close>
  holds it is truthy, \<open>delete\<close> finds no own property, and the flag is set.\<close>

definition removeCatalog :: "string \<Rightarrow> BunWorkspace \<Rightarrow> BunWorkspace" where
  "removeCatalog name m =
     (if name = ''default'' then
        (case workspaces (config m) of
           None \<Rightarrow> m
         | Some w \<Rightarrow>
             if catalog w \<noteq> None
             then (set_workspaces (w\<lparr>catalog := None\<rparr>) m)\<lparr>hasChanged := True\<rparr>
             else m)
      else
        (case workspaces (config m) of
           None \<Rightarrow> m
         | Some w \<Rightarrow>
             (case catalogs w of
                None \<Rightarrow> m
              | Some cs \<Rightarrow>
                  if truthy_object (obj_get cs name)
                  then (set_workspaces (w\<lparr>catalogs := Some (obj_delete name cs)\<rparr>) m)
                         \<lparr>hasChanged := True\<rparr>
                  else m)))"

text \<open>
  In the named branch of \<open>setCatalogVersion\<close> the two chained assignments first store the
  containers back (\<open>catalogs\<close> is \<open>cs\<close>, the catalog object is stored under its name in
  \<open>cs1\<close>) and then write the version into the catalog object, which \<open>cs1\<close> holds by
  reference. When the lookup \<open>catalogs[catalogName]\<close> finds a built-in, that built-in is the
  target of the write.
\<close>

definition setCatalogVersion ::
  "string \<Rightarrow> string \<Rightarrow> string \<Rightarrow> BunWorkspace \<Rightarrow> halt + BunWorkspace" where
  "setCatalogVersion catalogName packageName version m0 =
     (case createCatalog catalogName m0 of
        Inl e \<Rightarrow> Inl e
      | Inr m \<Rightarrow>
          (case workspaces (config m) of
             None \<Rightarrow> Inl TypeError
           | Some w \<Rightarrow>
               if catalogName = ''default'' then
                 (case catalog w of
                    None \<Rightarrow> Inl TypeError
                  | Some c \<Rightarrow>
                      Inr ((set_workspaces (w\<lparr>catalog := Some (obj_set packageName version c)\<rparr>) m)
                             \<lparr>hasChanged := True\<rparr>))
               else
                 (let cs = (case catalogs w of None \<Rightarrow> [] | Some cs \<Rightarrow> cs) in
                  case obj_get cs catalogName of
                    Inherited b \<Rightarrow> Inl (builtin_write b packageName)
                  | found \<Rightarrow>
                      (let catalogObj = (case found of Own c \<Rightarrow> c | _ \<Rightarrow> []) in
                       case obj_set_object catalogName catalogObj cs of
                         Inl h \<Rightarrow> Inl h
                       | Inr cs1 \<Rightarrow>
                           Inr ((set_workspaces
                                   (w\<lparr>catalogs := Some (obj_replace catalogName
                                          (obj_set packageName version catalogObj) cs1)\<rparr>) m)
                                  \<lparr>hasChanged := True\<rparr>)))))"

text \<open>In the named branch of \<open>getCatalogVersion\<close> the second member access has the result
  of the first as its receiver: a catalog, or a built-in.\<close>

definition getCatalogVersion :: "string \<Rightarrow> string \<Rightarrow> BunWorkspace \<Rightarrow> halt + jsvalue" where
  "getCatalogVersion catalogName packageName m =
     (if catalogName = ''default'' then
        (case opt_catalog (config m) of
           None \<Rightarrow> Inr Undefined
         | Some c \<Rightarrow> Inr (version_value (obj_get c packageName)))
      else
        (case opt_catalogs (config m) of
           None \<Rightarrow> Inr Undefined
         | Some cs \<Rightarrow>
             (case obj_get cs catalogName of
                Absent \<Rightarrow> Inr Undefined
              | Own c \<Rightarrow> Inr (version_value (obj_get c packageName))
              | Inherited b \<Rightarrow> Inl (BuiltinRead b packageName))))"

definition listCatalogs :: "BunWorkspace \<Rightarrow> string list" where
  "listCatalogs m =
     (let catalogs0 = [];
          catalogs1 = (if opt_catalog (config m) \<noteq> None then catalogs0 @ [''default'']
                       else catalogs0)
      in case opt_catalogs (config m) of
           None \<Rightarrow> catalogs1
         | Some cs \<Rightarrow> catalogs1 @ obj_keys cs)"

definition getCatalogPackages :: "string \<Rightarrow> BunWorkspace \<Rightarrow> jsvalue" where
  "getCatalogPackages catalogName m =
     (if catalogName = ''default''
      then (case opt_catalog (config m) of None \<Rightarrow> Packages [] | Some c \<Rightarrow> Packages c)
      else (case opt_catalogs (config m) of
              None \<Rightarrow> Packages []
            | Some cs \<Rightarrow>
                (case obj_get cs catalogName of
                   Absent \<Rightarrow> Packages []
                 | Own c \<Rightarrow> Packages c
                 | Inherited b \<Rightarrow> Builtin b)))"

definition setPackage ::
  "string \<Rightarrow> string \<Rightarrow> string \<Rightarrow> BunWorkspace \<Rightarrow> halt + BunWorkspace" where
  "setPackage catalog_name packageName version m =
     setCatalogVersion catalog_name packageName version m"

text \<open>
  The loop of \<open>getPackageCatalogs\<close> over \<open>Object.keys(config.workspaces.catalogs)\<close>: each
  name is looked up again in the container, and pushed when the value found under
  \<open>packageName\<close> is truthy. The optional chain yields \<open>undefined\<close> on a missing entry; a
  built-in as receiver would be a read of that built-in.
\<close>

fun scan_named ::
  "string obj obj \<Rightarrow> string \<Rightarrow> string list \<Rightarrow> string list \<Rightarrow> halt + string list" where
  "scan_named cs packageName [] acc = Inr acc"
| "scan_named cs packageName (k # ks) acc =
     (case obj_get cs k of
        Absent \<Rightarrow> scan_named cs packageName ks acc
      | Own c \<Rightarrow>
          scan_named cs packageName ks
            (if truthy (obj_get c packageName) then acc @ [k] else acc)
      | Inherited b \<Rightarrow> Inl (BuiltinRead b packageName))"

definition getPackageCatalogs :: "string \<Rightarrow> BunWorkspace \<Rightarrow> halt + string list" where
  "getPackageCatalogs packageName m =
     (case (case opt_catalogs (config m) of
              None \<Rightarrow> Inr []
            | Some cs \<Rightarrow> scan_named cs packageName (obj_keys cs) []) of
        Inl h \<Rightarrow> Inl h
      | Inr named \<Rightarrow>
          Inr (if (case opt_catalog (config m) of
                     None \<Rightarrow> False
                   | Some c \<Rightarrow> truthy (obj_get c packageName))
               then named @ [''default''] else named))"

definition getContent :: "BunWorkspace \<Rightarrow> BunWorkspaceSchema" where
  "getContent m = config m"

definition setContent :: "BunWorkspaceSchema \<Rightarrow> BunWorkspace \<Rightarrow> BunWorkspace" where
  "setContent newContent m = m\<lparr>config := newContent, hasChanged := True\<rparr>"

text \<open>\<open>toString\<close> returns what the runtime's \<open>JSON.stringify\<close> makes of the document
  with indentation 2; the model returns that application, unevaluated.\<close>

datatype json_text = JSON_stringify BunWorkspaceSchema nat

definition toString :: "BunWorkspace \<Rightarrow> json_text" where
  "toString m = JSON_stringify (config m) 2"

section \<open>The interface\<close>

text \<open>
  \<open>parseBunWorkspace\<close> returns an object with twelve operations. A request is an operation
  with its arguments; a call returns a result and the workspace after the call, or the halt.
\<close>

datatype request =
    GetContent
  | SetContent BunWorkspaceSchema
  | HasChanged
  | SetPackage string string string
  | GetPackageCatalogs string
  | ToString
  | CreateCatalog string
  | RemoveCatalog string
  | SetCatalogVersion string string string
  | GetCatalogVersion string string
  | ListCatalogs
  | GetCatalogPackages string

datatype result =
    RVoid
  | RContent BunWorkspaceSchema
  | RBool bool
  | RNames "string list"
  | RString json_text
  | RValue jsvalue

fun call :: "request \<Rightarrow> BunWorkspace \<Rightarrow> halt + (result \<times> BunWorkspace)" where
  "call GetContent m = Inr (RContent (getContent m), m)"
| "call (SetContent c) m = Inr (RVoid, setContent c m)"
| "call HasChanged m = Inr (RBool (hasChanged m), m)"
| "call (SetPackage c p v) m =
     (case setPackage c p v m of Inl e \<Rightarrow> Inl e | Inr m' \<Rightarrow> Inr (RVoid, m'))"
| "call (GetPackageCatalogs p) m =
     (case getPackageCatalogs p m of Inl e \<Rightarrow> Inl e | Inr ns \<Rightarrow> Inr (RNames ns, m))"
| "call ToString m = Inr (RString (toString m), m)"
| "call (CreateCatalog n) m =
     (case createCatalog n m of Inl e \<Rightarrow> Inl e | Inr m' \<Rightarrow> Inr (RVoid, m'))"
| "call (RemoveCatalog n) m = Inr (RVoid, removeCatalog n m)"
| "call (SetCatalogVersion c p v) m =
     (case setCatalogVersion c p v m of Inl e \<Rightarrow> Inl e | Inr m' \<Rightarrow> Inr (RVoid, m'))"
| "call (GetCatalogVersion c p) m =
     (case getCatalogVersion c p m of Inl e \<Rightarrow> Inl e | Inr v \<Rightarrow> Inr (RValue v, m))"
| "call ListCatalogs m = Inr (RNames (listCatalogs m), m)"
| "call (GetCatalogPackages c) m = Inr (RValue (getCatalogPackages c m), m)"

fun run :: "request list \<Rightarrow> BunWorkspace \<Rightarrow> halt + BunWorkspace" where
  "run [] m = Inr m"
| "run (x # xs) m =
     (case call x m of Inl e \<Rightarrow> Inl e | Inr (r, m') \<Rightarrow> run xs m')"

section \<open>Vocabulary of the statements\<close>

text \<open>The named catalogs: the own keys of the container, and the lookup of a name in it.\<close>

definition named_keys :: "BunWorkspace \<Rightarrow> string list" where
  "named_keys m = (case opt_catalogs (config m) of None \<Rightarrow> [] | Some cs \<Rightarrow> obj_keys cs)"


text \<open>
  A catalog exists when the document holds it: the slot \<open>workspaces.catalog\<close> for the name
  \<open>default\<close>, an own entry of \<open>workspaces.catalogs\<close> for every other name.
\<close>

definition catalog_exists :: "string \<Rightarrow> BunWorkspace \<Rightarrow> bool" where
  "catalog_exists n m =
     (if n = ''default'' then opt_catalog (config m) \<noteq> None else n \<in> set (named_keys m))"


text \<open>A plain name is one that \<open>Object.prototype\<close> does not hold. A catalog name reaches
  the document when it is plain or an own key of \<open>workspaces.catalogs\<close>.\<close>

definition plain_name :: "string \<Rightarrow> bool" where
  "plain_name k = (k \<notin> set object_prototype_names)"

definition reaches_document :: "string \<Rightarrow> BunWorkspace \<Rightarrow> bool" where
  "reaches_document c m = (plain_name c \<or> c \<in> set (named_keys m))"






definition other_names :: "string list \<Rightarrow> string list" where
  "other_names ks = filter (\<lambda>k. array_index k = None) ks"




text \<open>
  The specification's reading of \<open>getPackageCatalogs\<close>, by key presence: a catalog
  contains a package when the package name is one of its keys.
\<close>

definition has_key :: "string obj option \<Rightarrow> string \<Rightarrow> bool" where
  "has_key c p = (case c of None \<Rightarrow> False | Some ob \<Rightarrow> p \<in> set (obj_keys ob))"

definition getPackageCatalogs_spec :: "string \<Rightarrow> BunWorkspace \<Rightarrow> string list" where
  "getPackageCatalogs_spec p m =
     filter (\<lambda>n. has_key (Option.bind (opt_catalogs (config m)) (\<lambda>cs. map_of cs n)) p)
       (named_keys m)
       @ (if has_key (opt_catalog (config m)) p then [''default''] else [])"

section \<open>Example workspaces\<close>

text \<open>The workspaces parsed from \<open>{}\<close>, from \<open>{"workspaces": {}}\<close> and from
  \<open>{"workspaces": {"catalogs": {}}}\<close>.\<close>

definition parsed_empty :: BunWorkspace where
  "parsed_empty = \<lparr>config = \<lparr>workspaces = None\<rparr>, hasChanged = False\<rparr>"

definition parsed_workspaces_only :: BunWorkspace where
  "parsed_workspaces_only =
     \<lparr>config = \<lparr>workspaces = Some \<lparr>packages = None, catalog = None, catalogs = None\<rparr>\<rparr>,
      hasChanged = False\<rparr>"

definition parsed_no_catalogs :: BunWorkspace where
  "parsed_no_catalogs =
     \<lparr>config = \<lparr>workspaces = Some \<lparr>packages = None, catalog = None, catalogs = Some []\<rparr>\<rparr>,
      hasChanged = False\<rparr>"

text \<open>The documents of the repository's tests: one with only a default catalog, one with
  an empty default catalog, and the one of the catalog-operations test.\<close>

definition parsed_default_only :: BunWorkspace where
  "parsed_default_only =
     \<lparr>config = \<lparr>workspaces = Some \<lparr>packages = None,
                                      catalog = Some [(''pkg1'', ''1.0.0'')],
                                      catalogs = None\<rparr>\<rparr>,
      hasChanged = False\<rparr>"

definition parsed_empty_default :: BunWorkspace where
  "parsed_empty_default =
     \<lparr>config = \<lparr>workspaces = Some \<lparr>packages = None, catalog = Some [], catalogs = None\<rparr>\<rparr>,
      hasChanged = False\<rparr>"

definition parsed_complex :: BunWorkspace where
  "parsed_complex =
     \<lparr>config = \<lparr>workspaces = Some \<lparr>packages = None,
          catalog = Some [(''@unocss/core'', ''^0.66.0''), (''react'', ''^18.2.0'')],
          catalogs = Some [(''react18'', [(''next'', ''^14.0.0''), (''react-dom'', ''^18.2.0''),
                                         (''react'', ''^18.2.0'')]),
                           (''react19'', [(''react'', ''^19.0.0'')])]\<rparr>\<rparr>,
      hasChanged = False\<rparr>"

text \<open>The specification's example: a default catalog and two named catalogs, all three
  holding \<open>react\<close>.\<close>

definition parsed_react :: BunWorkspace where
  "parsed_react =
     \<lparr>config = \<lparr>workspaces = Some \<lparr>packages = None,
          catalog = Some [(''react'', ''^18.2.0'')],
          catalogs = Some [(''react18'', [(''react'', ''^18.2.0'')]),
                           (''react19'', [(''react'', ''^19.0.0'')])]\<rparr>\<rparr>,
      hasChanged = False\<rparr>"

text \<open>A named catalog that maps \<open>react\<close> to the empty version string.\<close>

definition parsed_empty_version :: BunWorkspace where
  "parsed_empty_version =
     \<lparr>config = \<lparr>workspaces = Some \<lparr>packages = None,
          catalog = None,
          catalogs = Some [(''legacy'', [(''react'', '''')])]\<rparr>\<rparr>,
      hasChanged = False\<rparr>"


section \<open>Shared objects\<close>
















section \<open>Properties of property tables\<close>

lemma obj_keys_Nil [simp]: "obj_keys [] = []"
  by (simp add: obj_keys_def)

lemma obj_keys_replace: "obj_keys (obj_replace k v ob) = obj_keys ob"
  by (induction ob) (auto simp: obj_keys_def)

lemma map_of_replace:
  "k \<in> set (obj_keys ob) \<Longrightarrow>
   map_of (obj_replace k v ob) k' = (if k' = k then Some v else map_of ob k')"
proof (induction ob)
  case Nil
  then show ?case by simp
next
  case (Cons e ob)
  show ?case
  proof (cases "fst e = k")
    case True
    then show ?thesis by (cases e) simp
  next
    case False
    with Cons.prems have "k \<in> set (obj_keys ob)" by (simp add: obj_keys_def)
    from Cons.IH [OF this] False show ?thesis by (cases e) auto
  qed
qed

lemma map_of_insert_index:
  "k \<notin> set (obj_keys ob) \<Longrightarrow>
   map_of (obj_insert_index n k v ob) k' = (if k' = k then Some v else map_of ob k')"
  by (induction ob) (auto simp: obj_keys_def split: option.splits)

lemma map_of_append_new:
  "k \<notin> set (obj_keys ob) \<Longrightarrow>
   map_of (ob @ [(k, v)]) k' = (if k' = k then Some v else map_of ob k')"
  by (induction ob) (auto simp: obj_keys_def)

lemma map_of_insert:
  "k \<notin> set (obj_keys ob) \<Longrightarrow>
   map_of (obj_insert k v ob) k' = (if k' = k then Some v else map_of ob k')"
  by (cases "array_index k")
     (simp_all add: obj_insert_def map_of_insert_index map_of_append_new del: map_of_append)

lemma map_of_keys: "(map_of ob k = None) = (k \<notin> set (obj_keys ob))"
  by (simp add: obj_keys_def map_of_eq_None_iff)

lemma obj_get_own: "k \<in> set (obj_keys ob) \<Longrightarrow> \<exists>v. obj_get ob k = Own v"
  by (cases "map_of ob k") (auto simp: obj_get_def map_of_keys)

lemma obj_get_not_own:
  "k \<notin> set (obj_keys ob) \<Longrightarrow>
   obj_get ob k = (if k \<in> set object_prototype_names then Inherited k else Absent)"
  by (simp add: obj_get_def map_of_keys [symmetric])

lemma set_keys_insert_index:
  "set (obj_keys (obj_insert_index n k v ob)) = insert k (set (obj_keys ob))"
  by (induction ob) (auto simp: obj_keys_def split: option.splits)

lemma set_keys_insert: "set (obj_keys (obj_insert k v ob)) = insert k (set (obj_keys ob))"
  by (auto simp: obj_insert_def set_keys_insert_index split: option.splits)
     (auto simp: obj_keys_def)


lemma map_of_delete: "map_of (obj_delete k ob) k' = (if k' = k then None else map_of ob k')"
  by (induction ob) (auto simp: obj_delete_def)

text \<open>Reading back an assigned version: the one name that is swallowed is \<open>__proto__\<close>.\<close>

lemma obj_get_set_same:
  "k \<noteq> ''__proto__'' \<or> k \<in> set (obj_keys ob) \<Longrightarrow> obj_get (obj_set k v ob) k = Own v"
  by (auto simp: obj_set_def obj_get_def map_of_replace map_of_insert)

lemma obj_get_set_other: "k' \<noteq> k \<Longrightarrow> obj_get (obj_set k v ob) k' = obj_get ob k'"
  by (auto simp: obj_set_def obj_get_def map_of_replace map_of_insert)

lemma obj_get_replace_same:
  "k \<in> set (obj_keys ob) \<Longrightarrow> obj_get (obj_replace k v ob) k = Own v"
  by (simp add: obj_get_def map_of_replace)

lemma obj_get_replace_other:
  "k \<in> set (obj_keys ob) \<Longrightarrow> k' \<noteq> k \<Longrightarrow> obj_get (obj_replace k v ob) k' = obj_get ob k'"
  by (simp add: obj_get_def map_of_replace)

lemma obj_get_insert_same:
  "k \<notin> set (obj_keys ob) \<Longrightarrow> obj_get (obj_insert k v ob) k = Own v"
  by (simp add: obj_get_def map_of_insert)

lemma obj_get_insert_other:
  "k \<notin> set (obj_keys ob) \<Longrightarrow> k' \<noteq> k \<Longrightarrow> obj_get (obj_insert k v ob) k' = obj_get ob k'"
  by (simp add: obj_get_def map_of_insert)

lemma obj_get_delete: 
  "obj_get (obj_delete k ob) k' = (if k' = k then obj_get [] k else obj_get ob k')"
  by (simp add: obj_get_def map_of_delete)

lemma truthy_object_iff:
  "truthy_object (obj_get cs n) = (n \<in> set (obj_keys cs) \<or> \<not> plain_name n)"
proof (cases "n \<in> set (obj_keys cs)")
  case True
  then obtain v where "obj_get cs n = Own v" using obj_get_own by blast
  with True show ?thesis by (simp add: truthy_object_def)
next
  case False
  then show ?thesis by (simp add: obj_get_not_own truthy_object_def plain_name_def)
qed

lemma plain_not_proto: "plain_name n \<Longrightarrow> n \<noteq> ''__proto__''"
  by (auto simp: plain_name_def object_prototype_names_def)

lemma default_plain: "plain_name ''default''"
  by (simp add: plain_name_def object_prototype_names_def)

lemma obj_set_object_new:
  "n \<notin> set (obj_keys cs) \<Longrightarrow> plain_name n \<Longrightarrow> obj_set_object n v cs = Inr (obj_insert n v cs)"
  by (auto simp: obj_set_object_def dest: plain_not_proto)

lemma obj_set_object_own:
  "n \<in> set (obj_keys cs) \<Longrightarrow> obj_set_object n v cs = Inr (obj_replace n v cs)"
  by (simp add: obj_set_object_def)

section \<open>Creating a catalog and writing a version\<close>

text \<open>
  The unguarded dereferences of \<open>createCatalog\<close> never meet \<open>undefined\<close>, and it never
  assigns to \<open>__proto__\<close>: it returns for every name. \<open>setCatalogVersion\<close> returns when the
  catalog name reaches the document, and ends at a built-in otherwise.
\<close>

lemma createCatalog_total: "\<exists>m'. createCatalog n m = Inr m'"
  by (auto simp: createCatalog_def ensureWorkspaces_def set_workspaces_def Let_def
        truthy_object_iff obj_set_object_new split: option.splits sum.splits)

lemma createCatalog_existing: "catalog_exists n m \<Longrightarrow> createCatalog n m = Inr m"
  by (auto simp: createCatalog_def ensureWorkspaces_def set_workspaces_def Let_def
        catalog_exists_def named_keys_def opt_catalog_def opt_catalogs_def truthy_object_iff
        split: option.splits if_splits)

lemma createCatalog_again: "createCatalog n m = Inr m' \<Longrightarrow> createCatalog n m' = Inr m'"
  by (auto simp: createCatalog_def ensureWorkspaces_def set_workspaces_def Let_def
        truthy_object_iff obj_set_object_new set_keys_insert
        split: option.splits if_splits sum.splits)

lemma createCatalog_creates:
  "reaches_document c m \<Longrightarrow> createCatalog c m = Inr m1 \<Longrightarrow> catalog_exists c m1"
  by (auto simp: createCatalog_def ensureWorkspaces_def set_workspaces_def Let_def
        catalog_exists_def reaches_document_def named_keys_def opt_catalog_def opt_catalogs_def
        truthy_object_iff obj_set_object_new set_keys_insert
        split: option.splits if_splits sum.splits)

lemma setCatalogVersion_existing:
  assumes "catalog_exists c m"
  shows "\<exists>m'. setCatalogVersion c p v m = Inr m' \<and> hasChanged m'
           \<and> named_keys m' = named_keys m
           \<and> (opt_catalog (config m') = None) = (opt_catalog (config m) = None)
           \<and> (p \<noteq> ''__proto__'' \<longrightarrow> getCatalogVersion c p m' = Inr (Str v))"
proof -
  from assms have cc: "createCatalog c m = Inr m" by (rule createCatalog_existing)
  show ?thesis
  proof (cases "c = ''default''")
    case True
    with assms obtain w ob where "workspaces (config m) = Some w" "catalog w = Some ob"
      by (auto simp: catalog_exists_def opt_catalog_def split: Option.bind_splits)
    with True cc show ?thesis
      by (simp add: setCatalogVersion_def opt_catalog_def opt_catalogs_def
            named_keys_def set_workspaces_def getCatalogVersion_def version_value_def
            obj_get_set_same)
  next
    case False
    with assms have nk: "c \<in> set (named_keys m)" by (simp add: catalog_exists_def)
    obtain w where w1: "workspaces (config m) = Some w"
      using nk by (cases "workspaces (config m)") (auto simp: named_keys_def opt_catalogs_def)
    obtain cs where w2: "catalogs w = Some cs"
      using nk w1 by (cases "catalogs w") (auto simp: named_keys_def opt_catalogs_def)
    note w = w1 w2
    from nk w have k: "c \<in> set (obj_keys cs)" by (simp add: named_keys_def opt_catalogs_def)
    from k obtain ob where ob: "obj_get cs c = Own ob" using obj_get_own by blast
    from False cc w k ob show ?thesis
      by (simp add: setCatalogVersion_def obj_set_object_own set_workspaces_def
            named_keys_def opt_catalogs_def opt_catalog_def obj_keys_replace
            getCatalogVersion_def obj_get_replace_same version_value_def obj_get_set_same)
  qed
qed

lemma setCatalogVersion_returns:
  assumes "reaches_document c m"
  shows "\<exists>m1 m'. createCatalog c m = Inr m1 \<and> setCatalogVersion c p v m = Inr m'
           \<and> hasChanged m' \<and> named_keys m' = named_keys m1
           \<and> (p \<noteq> ''__proto__'' \<longrightarrow> getCatalogVersion c p m' = Inr (Str v))"
proof -
  obtain m1 where m1: "createCatalog c m = Inr m1" using createCatalog_total by blast
  with assms have e: "catalog_exists c m1" by (rule createCatalog_creates)
  from m1 have "createCatalog c m1 = Inr m1" by (rule createCatalog_again)
  then have "setCatalogVersion c p v m = setCatalogVersion c p v m1"
    using m1 by (simp add: setCatalogVersion_def)
  with setCatalogVersion_existing [OF e, of p v] m1 show ?thesis by auto
qed

lemma setCatalogVersion_halts:
  assumes "\<not> reaches_document c m"
  shows "setCatalogVersion c p v m = Inl (builtin_write c p)"
proof -
  from assms have np: "\<not> plain_name c" and nk: "c \<notin> set (named_keys m)"
    by (auto simp: reaches_document_def)
  from np have nd: "c \<noteq> ''default''" using default_plain by auto
  from np have inh: "c \<in> set object_prototype_names" by (simp add: plain_name_def)
  from nd nk inh show ?thesis
    by (auto simp: setCatalogVersion_def createCatalog_def ensureWorkspaces_def
          set_workspaces_def Let_def truthy_object_def named_keys_def
          opt_catalogs_def obj_get_not_own split: option.splits)
qed

section \<open>Scanning the catalogs\<close>



section \<open>The change flag along a run\<close>

lemma createCatalog_flag:
  "createCatalog n m = Inr m' \<Longrightarrow> hasChanged m \<Longrightarrow> hasChanged m'"
  by (auto simp: createCatalog_def ensureWorkspaces_def set_workspaces_def Let_def
           split: option.splits if_splits sum.splits)

lemma setCatalogVersion_flag: "setCatalogVersion c p v m = Inr m' \<Longrightarrow> hasChanged m'"
proof (cases "reaches_document c m")
  case True
  assume "setCatalogVersion c p v m = Inr m'"
  with setCatalogVersion_returns [OF True, of p v] show ?thesis by auto
next
  case False
  assume "setCatalogVersion c p v m = Inr m'"
  with False show ?thesis by (simp add: setCatalogVersion_halts)
qed

lemma removeCatalog_flag: "hasChanged m \<Longrightarrow> hasChanged (removeCatalog n m)"
  by (auto simp: removeCatalog_def set_workspaces_def split: option.splits)

lemma call_flag_mono: "call x m = Inr (r, m') \<Longrightarrow> hasChanged m \<Longrightarrow> hasChanged m'"
  by (cases x)
     (auto simp: setPackage_def setContent_def removeCatalog_flag split: sum.splits
           dest: setCatalogVersion_flag createCatalog_flag)

lemma run_flag_mono: "run xs m = Inr m' \<Longrightarrow> hasChanged m \<Longrightarrow> hasChanged m'"
proof (induction xs arbitrary: m)
  case Nil
  then show ?case by simp
next
  case (Cons x xs)
  from Cons.prems(1) obtain r m1 where c: "call x m = Inr (r, m1)"
    and rest: "run xs m1 = Inr m'"
    by (auto split: sum.splits)
  from c Cons.prems(2) have "hasChanged m1" by (rule call_flag_mono)
  with rest show ?case by (rule Cons.IH)
qed

section \<open>The operations on plain names\<close>

text \<open>
  Where the names are plain, the operations behave as dictionary operations: a written
  version is read back, a lookup that misses returns \<open>undefined\<close> or the empty mapping, and
  removing a catalog that does not exist changes nothing.
\<close>

lemma plain_write_then_read:
  assumes "reaches_document c m" and "p \<noteq> ''__proto__''"
  shows "\<exists>m'. setPackage c p v m = Inr m' \<and> setCatalogVersion c p v m = Inr m'
           \<and> hasChanged m' \<and> getCatalogVersion c p m' = Inr (Str v)"
  using setCatalogVersion_returns [OF assms(1), of p v] assms(2)
  by (auto simp: setPackage_def)

lemma plain_lookup_miss:
  assumes "plain_name c" and "plain_name p"
  shows "(\<not> catalog_exists c m \<longrightarrow>
            getCatalogVersion c p m = Inr Undefined \<and> getCatalogPackages c m = Packages [])
    \<and> (\<forall>ob. getCatalogPackages c m = Packages ob \<and> p \<notin> set (obj_keys ob) \<longrightarrow>
            getCatalogVersion c p m = Inr Undefined)"
  using assms
  by (auto simp: catalog_exists_def named_keys_def getCatalogVersion_def getCatalogPackages_def
        obj_get_not_own plain_name_def version_value_def opt_catalog_def
        split: option.splits lookup.splits if_splits)

lemma plain_removeCatalog_missing:
  "plain_name n \<Longrightarrow> \<not> catalog_exists n m \<Longrightarrow> removeCatalog n m = m"
  by (auto simp: removeCatalog_def catalog_exists_def named_keys_def opt_catalog_def
        opt_catalogs_def truthy_object_iff split: option.splits if_splits)

section \<open>The repository's tests on the model\<close>

text \<open>The scenarios of the repository's test file, run on the model: it computes the
  values the tests expect, property order included.\<close>

lemma test_catalog_operations:
  "\<exists>m. run [SetPackage ''react18'' ''@vue/compiler-sfc'' ''^3.0.0'',
             SetPackage ''react18'' ''vue'' ''^3.0.0'',
             SetPackage ''react18'' ''react'' ''^18.3.0'',
             SetPackage ''react19'' ''react'' ''^19.1.0''] parsed_complex = Inr m
     \<and> getPackageCatalogs ''react'' m = Inr [''react18'', ''react19'', ''default'']
     \<and> getCatalogVersion ''react18'' ''vue'' m = Inr (Str ''^3.0.0'')
     \<and> getCatalogVersion ''react19'' ''react'' m = Inr (Str ''^19.1.0'')
     \<and> getCatalogPackages ''react18'' m =
           Packages [(''next'', ''^14.0.0''), (''react-dom'', ''^18.2.0''),
                     (''react'', ''^18.3.0''), (''@vue/compiler-sfc'', ''^3.0.0''),
                     (''vue'', ''^3.0.0'')]"
  by (simp add: parsed_complex_def setPackage_def setCatalogVersion_def createCatalog_def
        ensureWorkspaces_def set_workspaces_def getCatalogVersion_def getPackageCatalogs_def
        getCatalogPackages_def opt_catalog_def opt_catalogs_def obj_set_def obj_keys_def
        obj_get_def obj_set_object_def obj_insert_def array_index_def is_digit_def truthy_def
        truthy_object_def version_value_def object_prototype_names_def Let_def)

lemma test_initialize_empty_workspace:
  "\<exists>m. run [SetPackage ''default'' ''react'' ''^18.2.0'', SetPackage ''vue'' ''vue'' ''^3.0.0'']
          parsed_workspaces_only = Inr m
     \<and> getCatalogVersion ''default'' ''react'' m = Inr (Str ''^18.2.0'')
     \<and> getCatalogVersion ''vue'' ''vue'' m = Inr (Str ''^3.0.0'')
     \<and> listCatalogs m = [''default'', ''vue'']
     \<and> getCatalogPackages ''default'' m = Packages [(''react'', ''^18.2.0'')]
     \<and> getCatalogPackages ''vue'' m = Packages [(''vue'', ''^3.0.0'')]"
  by (simp add: parsed_workspaces_only_def setPackage_def setCatalogVersion_def createCatalog_def
        ensureWorkspaces_def set_workspaces_def getCatalogVersion_def listCatalogs_def
        getCatalogPackages_def opt_catalog_def opt_catalogs_def obj_set_def obj_keys_def
        obj_get_def obj_set_object_def obj_insert_def array_index_def is_digit_def
        truthy_object_def version_value_def object_prototype_names_def Let_def)

lemma test_ensure_workspaces_initialization:
  "\<exists>m. setPackage ''default'' ''pkg1'' ''1.0.0'' parsed_empty = Inr m
     \<and> getContent m = \<lparr>workspaces = Some \<lparr>packages = None,
           catalog = Some [(''pkg1'', ''1.0.0'')], catalogs = None\<rparr>\<rparr>"
  by (simp add: parsed_empty_def setPackage_def setCatalogVersion_def createCatalog_def
        ensureWorkspaces_def set_workspaces_def getContent_def obj_set_def obj_keys_def
        obj_insert_def array_index_def is_digit_def Let_def)

lemma test_default_catalog_removal:
  "getContent (removeCatalog ''default'' parsed_default_only)
     = \<lparr>workspaces = Some \<lparr>packages = None, catalog = None, catalogs = None\<rparr>\<rparr>
   \<and> hasChanged (removeCatalog ''default'' parsed_default_only)"
  by (simp add: parsed_default_only_def removeCatalog_def set_workspaces_def getContent_def)

lemma test_nonexistent_catalog_removal:
  "removeCatalog ''nonexistent'' parsed_workspaces_only = parsed_workspaces_only"
  by (simp add: parsed_workspaces_only_def removeCatalog_def)

lemma test_initialize_catalogs_when_setting:
  "\<exists>m. setPackage ''test'' ''pkg1'' ''1.0.0'' parsed_workspaces_only = Inr m
     \<and> getContent m = \<lparr>workspaces = Some \<lparr>packages = None, catalog = None,
           catalogs = Some [(''test'', [(''pkg1'', ''1.0.0'')])]\<rparr>\<rparr>"
  by (simp add: parsed_workspaces_only_def setPackage_def setCatalogVersion_def createCatalog_def
        ensureWorkspaces_def set_workspaces_def getContent_def obj_set_def obj_keys_def
        obj_get_def obj_set_object_def obj_insert_def array_index_def is_digit_def
        truthy_object_def object_prototype_names_def Let_def)

lemma test_catalog_lifecycle:
  "\<exists>m. run [CreateCatalog ''test'', SetCatalogVersion ''test'' ''package'' ''1.0.0'']
          parsed_workspaces_only = Inr m
     \<and> getCatalogVersion ''test'' ''package'' m = Inr (Str ''1.0.0'')
     \<and> getCatalogVersion ''test'' ''package'' (removeCatalog ''test'' m) = Inr Undefined
     \<and> listCatalogs (removeCatalog ''test'' m) = []"
  by (simp add: parsed_workspaces_only_def setCatalogVersion_def createCatalog_def
        ensureWorkspaces_def set_workspaces_def getCatalogVersion_def listCatalogs_def
        removeCatalog_def obj_delete_def opt_catalog_def opt_catalogs_def obj_set_def
        obj_keys_def obj_get_def obj_set_object_def obj_insert_def array_index_def is_digit_def
        truthy_object_def version_value_def object_prototype_names_def Let_def)

section \<open>Write-then-read\<close>

text \<open>
  Claim C1 says that for every catalog name \<open>c\<close>, package name \<open>p\<close> and version \<open>v\<close>,
  \<open>setPackage(c, p, v)\<close> followed by \<open>getCatalogVersion(c, p)\<close> returns \<open>v\<close>. The code fails
  it on names that \<open>Object.prototype\<close> holds. On a document with an empty default catalog,
  \<open>setPackage("default", "__proto__", "1.0.0")\<close> returns and stores nothing (the inherited
  setter swallows the string), and \<open>getCatalogVersion("default", "__proto__")\<close> returns
  \<open>Object.prototype\<close>. With the catalog name \<open>__proto__\<close> no catalog is created: the
  version is assigned to a property of \<open>Object.prototype\<close> itself.
\<close>

theorem write_then_read_swallowed:
  "(\<exists>m'. setPackage ''default'' ''__proto__'' ''1.0.0'' parsed_empty_default = Inr m'
       \<and> getCatalogPackages ''default'' m' = Packages []
       \<and> getCatalogVersion ''default'' ''__proto__'' m' = Inr (Builtin ''__proto__''))
   \<and> setPackage ''__proto__'' ''polluted'' ''1'' parsed_workspaces_only
       = Inl (BuiltinWrite ''__proto__'' ''polluted'')"
  by (simp add: setPackage_def setCatalogVersion_def createCatalog_def ensureWorkspaces_def
        set_workspaces_def parsed_empty_default_def parsed_workspaces_only_def
        getCatalogPackages_def getCatalogVersion_def opt_catalog_def obj_set_def obj_keys_def
        obj_get_def truthy_object_def version_value_def object_prototype_names_def
        builtin_write_def Let_def)

section \<open>The change flag\<close>

text \<open>
  Claim C2 says, among other things, that the change flag is true after a \<open>createCatalog\<close>
  that created something and after \<open>setPackage\<close>. The code fails both on a name that
  \<open>Object.prototype\<close> holds. On a document with an empty \<open>workspaces\<close> object,
  \<open>createCatalog("constructor")\<close> adds the container \<open>catalogs: {}\<close> to the document, finds
  \<open>catalogs["constructor"]\<close> truthy, creates no catalog and leaves the flag false;
  \<open>setPackage("constructor", "name", "1.0.0")\<close> assigns to the read-only property \<open>name\<close> of
  the function \<open>Object\<close> and raises \<open>TypeError\<close> before the flag is set.
\<close>

theorem createCatalog_container_unflagged:
  "(\<exists>m'. createCatalog ''constructor'' parsed_workspaces_only = Inr m'
       \<and> getContent m' = \<lparr>workspaces = Some \<lparr>packages = None, catalog = None,
                                             catalogs = Some []\<rparr>\<rparr>
       \<and> getContent m' \<noteq> getContent parsed_workspaces_only
       \<and> listCatalogs m' = []
       \<and> \<not> hasChanged m')
   \<and> setPackage ''constructor'' ''name'' ''1.0.0'' parsed_workspaces_only = Inl TypeError"
  by (simp add: setPackage_def setCatalogVersion_def createCatalog_def ensureWorkspaces_def
        set_workspaces_def parsed_workspaces_only_def getContent_def listCatalogs_def
        opt_catalog_def opt_catalogs_def obj_keys_def obj_get_def truthy_object_def
        object_prototype_names_def builtin_write_def Let_def)

section \<open>Catalogs that hold a package\<close>

text \<open>
  Claim C3 says that \<open>getPackageCatalogs(p)\<close> lists exactly the named catalogs that contain
  \<open>p\<close>, then \<open>default\<close> if the default catalog contains \<open>p\<close>. The code tests the value
  found under \<open>p\<close> for truthiness. A catalog that maps \<open>react\<close> to the empty string contains
  \<open>react\<close> (and \<open>getCatalogVersion\<close> returns the empty string) but is not listed; and for a
  name that \<open>Object.prototype\<close> holds, such as \<open>toString\<close>, every catalog is listed although
  none contains it.
\<close>

theorem getPackageCatalogs_not_by_key:
  "getPackageCatalogs_spec ''react'' parsed_empty_version = [''legacy'']
   \<and> getPackageCatalogs ''react'' parsed_empty_version = Inr []
   \<and> getCatalogVersion ''legacy'' ''react'' parsed_empty_version = Inr (Str '''')
   \<and> getPackageCatalogs_spec ''toString'' parsed_react = []
   \<and> getPackageCatalogs ''toString'' parsed_react = Inr [''react18'', ''react19'', ''default'']"
  by (simp add: getPackageCatalogs_spec_def getPackageCatalogs_def getCatalogVersion_def
        parsed_empty_version_def parsed_react_def named_keys_def opt_catalogs_def
        opt_catalog_def has_key_def obj_keys_def obj_get_def truthy_def version_value_def
        object_prototype_names_def)

section \<open>Lookups that miss\<close>

text \<open>
  Claim C4 says that \<open>getCatalogVersion\<close> returns \<open>undefined\<close> when the catalog or the
  package in it is missing, and that \<open>getCatalogPackages\<close> returns an empty mapping when the
  catalog is missing, for all strings. The code fails it on names that \<open>Object.prototype\<close>
  holds: the catalog \<open>react19\<close> has no package \<open>constructor\<close>, and
  \<open>getCatalogVersion("react19", "constructor")\<close> returns the function \<open>Object\<close>; there is
  no catalog \<open>valueOf\<close>, and \<open>getCatalogPackages("valueOf")\<close> returns the function
  \<open>Object.prototype.valueOf\<close>.
\<close>

theorem lookup_miss_inherited:
  "catalog_exists ''react19'' parsed_react
   \<and> getCatalogPackages ''react19'' parsed_react = Packages [(''react'', ''^19.0.0'')]
   \<and> getCatalogVersion ''react19'' ''constructor'' parsed_react = Inr (Builtin ''constructor'')
   \<and> \<not> catalog_exists ''valueOf'' parsed_react
   \<and> getCatalogPackages ''valueOf'' parsed_react = Builtin ''valueOf''"
  by (simp add: catalog_exists_def named_keys_def getCatalogPackages_def getCatalogVersion_def
        parsed_react_def opt_catalogs_def obj_keys_def obj_get_def version_value_def
        object_prototype_names_def)

section \<open>Creating a catalog twice\<close>

text \<open>
  Claim C5. \<open>createCatalog(n)\<close> called twice in a row leaves the same \<open>listCatalogs()\<close> and
  the same change flag as one call: the second call returns the workspace of the first
  unchanged. On a name whose catalog already exists, empty or not, \<open>createCatalog\<close> changes
  neither the document nor the change flag. Both hold for every name, also one that
  \<open>Object.prototype\<close> holds.
\<close>

theorem createCatalog_idempotent:
  "\<exists>m1 m2. createCatalog n m = Inr m1
      \<and> createCatalog n m1 = Inr m2
      \<and> listCatalogs m2 = listCatalogs m1 \<and> hasChanged m2 = hasChanged m1 \<and> m2 = m1
      \<and> (catalog_exists n m \<longrightarrow> config m1 = config m \<and> hasChanged m1 = hasChanged m)"
proof -
  obtain m1 where m1: "createCatalog n m = Inr m1" using createCatalog_total by blast
  then have again: "createCatalog n m1 = Inr m1" by (rule createCatalog_again)
  have "catalog_exists n m \<longrightarrow> m1 = m" using m1 by (auto dest: createCatalog_existing)
  with m1 again show ?thesis by auto
qed

theorem createCatalog_idempotent_witness:
  "catalog_exists ''react18'' parsed_react
   \<and> (\<exists>m1 m2. createCatalog ''react18'' parsed_react = Inr m1
        \<and> createCatalog ''react18'' m1 = Inr m2
        \<and> listCatalogs m2 = listCatalogs m1 \<and> hasChanged m2 = hasChanged m1 \<and> m2 = m1
        \<and> config m1 = config parsed_react \<and> hasChanged m1 = hasChanged parsed_react)"
proof -
  have e: "catalog_exists ''react18'' parsed_react"
    by (simp add: catalog_exists_def named_keys_def opt_catalogs_def parsed_react_def
          obj_keys_def)
  with createCatalog_idempotent [of "''react18''" parsed_react] show ?thesis by blast
qed

section \<open>Removing a catalog\<close>

text \<open>
  Claim C6 says that \<open>removeCatalog(n)\<close> on a catalog that does not exist leaves the
  document and the change flag unchanged. The code fails it on a name that
  \<open>Object.prototype\<close> holds: a document with an empty container \<open>catalogs\<close> has no catalog
  \<open>constructor\<close>, and \<open>removeCatalog("constructor")\<close> finds \<open>catalogs["constructor"]\<close> truthy,
  deletes nothing and sets the flag.
\<close>

theorem removeCatalog_missing_flagged:
  "\<not> catalog_exists ''constructor'' parsed_no_catalogs
   \<and> \<not> hasChanged parsed_no_catalogs
   \<and> getContent (removeCatalog ''constructor'' parsed_no_catalogs) = getContent parsed_no_catalogs
   \<and> hasChanged (removeCatalog ''constructor'' parsed_no_catalogs)"
  by (simp add: catalog_exists_def named_keys_def removeCatalog_def parsed_no_catalogs_def
        opt_catalogs_def set_workspaces_def getContent_def obj_keys_def obj_get_def
        obj_delete_def truthy_object_def object_prototype_names_def)

section \<open>Listing the catalogs\<close>










lemma other_names_Nil [simp]: "other_names [] = []"
  by (simp add: other_names_def)

















section \<open>The duality of the default catalog\<close>















section \<open>Empty version strings\<close>






end
